theory Spec2Isabelle
  imports Complex_Main "HOL-Library.AList"
begin

section \<open>Python values and helpers\<close>

text \<open>
  The development embeds the two extractors of the repository:
  class \<open>BusDataExtractor\<close> of \<^verbatim>\<open>bus_xml_extractor.py\<close> (the targeted-path extractor;
  its methods carry the prefix \<open>bus_\<close> where a name occurs in both classes) and class
  \<open>XMLExtractor\<close> of \<^verbatim>\<open>xml_to_csv_extractor.py\<close> (the tag-suffix-scan extractor, prefix
  \<open>xml_\<close>).

  Python strings are modelled as \<open>string\<close>, so a character is one of the 256 code
  points of Latin-1. Python dictionaries are association lists in insertion order:
  \<open>d[k] = v\<close> is \<open>AList.update k v d\<close> (an existing key keeps its place, a new key goes
  last, as in Python), \<open>d.get(k, dflt)\<close> is \<open>dict_get d k dflt\<close> and \<open>k in d\<close> is
  \<open>map_of d k \<noteq> None\<close>.
\<close>

datatype py_error = ValueError

datatype pyval = PNone | PStr string | PInt int

type_synonym 'v dict = "(string \<times> 'v) list"

definition dict_get :: "'v dict \<Rightarrow> string \<Rightarrow> 'v \<Rightarrow> 'v" where
  "dict_get d k dflt = (case map_of d k of None \<Rightarrow> dflt | Some v \<Rightarrow> v)"

text \<open>\<open>d.get(k)\<close> without a default: \<open>None\<close> for a missing key.\<close>

definition rec_get :: "pyval dict \<Rightarrow> string \<Rightarrow> pyval" where
  "rec_get d k = dict_get d k PNone"

text \<open>Python truthiness of the values a record holds.\<close>

fun truthy :: "pyval \<Rightarrow> bool" where
  "truthy PNone = False"
| "truthy (PStr s) = (s \<noteq> [])"
| "truthy (PInt n) = (n \<noteq> 0)"

text \<open>
  \<open>\d\<close> of a \<open>str\<close> pattern matches the decimal digits; below code point 256 these are
  \<open>0\<close> to \<open>9\<close>.
\<close>

definition is_digit :: "char \<Rightarrow> bool" where
  "is_digit c = (48 \<le> (of_char c :: nat) \<and> (of_char c :: nat) \<le> 57)"

text \<open>\<open>str.isspace\<close> below code point 256, the characters \<open>str.strip()\<close> removes.\<close>

definition is_space :: "char \<Rightarrow> bool" where
  "is_space c = (let n = (of_char c :: nat) in
     (9 \<le> n \<and> n \<le> 13) \<or> (28 \<le> n \<and> n \<le> 32) \<or> n = 133 \<or> n = 160)"

definition py_strip :: "string \<Rightarrow> string" where
  "py_strip s = rev (dropWhile is_space (rev (dropWhile is_space s)))"

text \<open>
  \<open>int(s)\<close> on a string. A non-empty string of digits is read in base 10. Every other
  string is answered with \<open>ValueError\<close>: Python accepts a few more (a sign, surrounding
  blanks, underscores), none of which the callers below can pass, so the model errs on
  the side of raising. The interpreter's optional cap on the number of digits
  (\<open>sys.set_int_max_str_digits\<close>) is not modelled: integers are unbounded.
\<close>

definition digit_val :: "char \<Rightarrow> int" where
  "digit_val c = int (of_char c) - 48"

definition py_int :: "string \<Rightarrow> py_error + int" where
  "py_int s = (if s \<noteq> [] \<and> list_all is_digit s
     then Inr (foldl (\<lambda>a c. 10 * a + digit_val c) 0 s) else Inl ValueError)"

section \<open>Duration parser\<close>

text \<open>
  Both classes match \<^verbatim>\<open>PT(?:(\d+)H)?(?:(\d+)M)?(?:(\d+)S)?\<close> with \<open>re.match\<close>, which
  anchors the pattern at the start of the string only.

  \<open>match_component u s\<close> is one optional group \<^verbatim>\<open>(?:(\d+)u)?\<close> at the head of \<open>s\<close>: the
  greedy digit run must be non-empty and followed by the unit letter; a shorter run is
  followed by a digit, never by the letter, so backtracking finds nothing else, and the
  group is then skipped without consuming anything. The result is the captured group
  and the rest of the string.
\<close>

definition match_component :: "char \<Rightarrow> string \<Rightarrow> string option \<times> string" where
  "match_component u s =
     (let ds = takeWhile is_digit s; rest = dropWhile is_digit s in
      (case rest of
         [] \<Rightarrow> (None, s)
       | c # rest' \<Rightarrow> if ds \<noteq> [] \<and> c = u then (Some ds, rest') else (None, s)))"

text \<open>The match object, as its three groups; \<open>None\<close> when \<open>re.match\<close> returns \<open>None\<close>.\<close>

definition re_match_duration ::
  "string \<Rightarrow> (string option \<times> string option \<times> string option) option" where
  "re_match_duration s =
     (case s of
        p # t # r \<Rightarrow>
          if p = CHR ''P'' \<and> t = CHR ''T'' then
            (let (h, r1) = match_component CHR ''H'' r;
                 (m, r2) = match_component CHR ''M'' r1;
                 (sec, r3) = match_component CHR ''S'' r2
             in Some (h, m, sec))
          else None
      | _ \<Rightarrow> None)"

text \<open>\<open>int(match.group(i) or 0)\<close>: an unmatched (or empty) group counts as 0.\<close>

definition group_int :: "string option \<Rightarrow> py_error + int" where
  "group_int g = (case g of None \<Rightarrow> Inr 0 | Some s \<Rightarrow> if s = [] then Inr 0 else py_int s)"

text \<open>The three conversions and the sum, shared by both variants; \<open>Inl\<close> is a raise.\<close>

definition duration_seconds ::
  "string option \<times> string option \<times> string option \<Rightarrow> py_error + int" where
  "duration_seconds g =
     (case g of (h, m, sec) \<Rightarrow>
        (case group_int h of Inl e \<Rightarrow> Inl e | Inr hours \<Rightarrow>
         (case group_int m of Inl e \<Rightarrow> Inl e | Inr minutes \<Rightarrow>
          (case group_int sec of Inl e \<Rightarrow> Inl e | Inr seconds \<Rightarrow>
             Inr (hours * 3600 + minutes * 60 + seconds)))))"

text \<open>
  \<open>XMLExtractor.parse_duration\<close>. The argument is \<open>None\<close> or a string; the result is a
  raise (\<open>Inl\<close>), Python's \<open>None\<close> (\<open>Inr None\<close>) or an integer.
\<close>

definition xml_parse_duration :: "string option \<Rightarrow> py_error + int option" where
  "xml_parse_duration duration_str =
     (case duration_str of
        None \<Rightarrow> Inr None
      | Some s \<Rightarrow>
          if s = [] then Inr None
          else (case re_match_duration s of
                  None \<Rightarrow> Inr None
                | Some g \<Rightarrow> (case duration_seconds g of Inl e \<Rightarrow> Inl e | Inr n \<Rightarrow> Inr (Some n))))"

text \<open>
  \<open>BusDataExtractor.parse_duration\<close>: the same computation inside \<open>try ... except: pass\<close>,
  with 0 for every absent value, so the result is always an integer.
\<close>

definition bus_parse_duration :: "string option \<Rightarrow> int" where
  "bus_parse_duration iso_duration =
     (case iso_duration of
        None \<Rightarrow> 0
      | Some s \<Rightarrow>
          if s = [] then 0
          else (case re_match_duration s of
                  None \<Rightarrow> 0
                | Some g \<Rightarrow> (case duration_seconds g of Inl e \<Rightarrow> 0 | Inr n \<Rightarrow> n)))"

text \<open>
  The pattern as the specification words it, matched against the whole string: \<open>PT\<close>,
  then an optional hour, minute and second component in that order and nothing else.
  \<open>duration_text h m s\<close> writes such a string from its three optional digit strings.
\<close>

definition component_text :: "string option \<Rightarrow> char \<Rightarrow> string" where
  "component_text g u = (case g of None \<Rightarrow> [] | Some ds \<Rightarrow> ds @ [u])"

definition duration_text :: "string option \<Rightarrow> string option \<Rightarrow> string option \<Rightarrow> string" where
  "duration_text h m s =
     ''PT'' @ component_text h CHR ''H'' @ component_text m CHR ''M'' @ component_text s CHR ''S''"

definition digits_ok :: "string option \<Rightarrow> bool" where
  "digits_ok g = (case g of None \<Rightarrow> True | Some ds \<Rightarrow> ds \<noteq> [] \<and> list_all is_digit ds)"


text \<open>
  \<open>spec_full_match s\<close>: the whole of \<open>s\<close> has the specified form. After \<open>PT\<close> each
  component is stripped if present; the string has the form exactly when nothing is
  left.
\<close>

definition spec_full_match :: "string \<Rightarrow> bool" where
  "spec_full_match s =
     (case s of
        p # t # r \<Rightarrow>
          p = CHR ''P'' \<and> t = CHR ''T'' \<and>
          snd (match_component CHR ''S'' (snd (match_component CHR ''M''
            (snd (match_component CHR ''H'' r))))) = []
      | _ \<Rightarrow> False)"

section \<open>The element tree\<close>

text \<open>
  An \<open>xml.etree\<close> element: its tag (\<^verbatim>\<open>{uri}local\<close> when namespace-qualified), its
  attributes, its text (\<open>None\<close> when it has none) and its children in document order.
  \<open>ET.parse\<close> either raises or yields the root element; a file of the batch is its name
  and that outcome, \<open>Inl\<close> carrying \<open>str(ex)\<close> of the exception.
\<close>

datatype element =
  Element (tag: string) (attrib: "string dict") (etext: "string option") (children: "element list")

type_synonym xml_file = "string \<times> (string + element)"

text \<open>\<open>element.get(key, dflt)\<close>.\<close>

definition attr_get :: "element \<Rightarrow> string \<Rightarrow> string \<Rightarrow> string" where
  "attr_get e k dflt = dict_get (attrib e) k dflt"

text \<open>\<open>element.iter()\<close>: the element and all its descendants, in document order.\<close>

fun iter :: "element \<Rightarrow> element list" where
  "iter (Element t a x cs) = Element t a x cs # concat (map iter cs)"

definition descendants :: "element \<Rightarrow> element list" where
  "descendants e = concat (map iter (children e))"

text \<open>
  The paths the extractor hands to \<open>find\<close> and \<open>findall\<close>. The code builds them as
  strings; the three shapes it builds are a tag (\<open>Child\<close>: the children with that tag),
  \<^verbatim>\<open>.//tag\<close> (\<open>Desc\<close>: the descendants with that tag, the element itself excluded) and
  \<^verbatim>\<open>.//a/b\<close> (\<open>DescChild\<close>: the children tagged \<open>b\<close> of the descendants tagged \<open>a\<close>). A
  tag of a path matches the elements whose tag is that very string.
\<close>

datatype path = Child string | Desc string | DescChild string string

fun findall :: "element \<Rightarrow> path \<Rightarrow> element list" where
  "findall e (Child t) = filter (\<lambda>c. tag c = t) (children e)"
| "findall e (Desc t) = filter (\<lambda>c. tag c = t) (descendants e)"
| "findall e (DescChild a b) =
     concat (map (\<lambda>d. filter (\<lambda>c. tag c = b) (children d))
                 (filter (\<lambda>c. tag c = a) (descendants e)))"

text \<open>\<open>element.find(path)\<close>: the first match, or \<open>None\<close>.\<close>

definition find_elem :: "element \<Rightarrow> path \<Rightarrow> element option" where
  "find_elem e p = (case findall e p of [] \<Rightarrow> None | x # xs \<Rightarrow> Some x)"

section \<open>BusDataExtractor\<close>

text \<open>
  The attributes of the object that the extraction reads or writes. A stop, an operator
  and the service are dictionaries from field names to strings; \<open>service_info\<close> is \<open>{}\<close>
  until a service is found.
\<close>

record bus_state =
  stops_data :: "string dict dict"
  timing_segments :: "pyval dict list"
  service_info :: "string dict"
  operator_info :: "string dict dict"
  namespace :: "string option"

text \<open>The object as \<open>__init__\<close> leaves it.\<close>

definition bus_init :: bus_state where
  "bus_init = \<lparr> stops_data = [], timing_segments = [], service_info = [],
                 operator_info = [], namespace = None \<rparr>"

text \<open>
  \<open>re.match(r'\{(.+)\}', tag)\<close>: the tag starts with an opening brace, and the greedy
  group runs to the last closing brace of the first line, with at least one character
  in between (\<open>.\<close> does not match a line feed).
\<close>

definition re_match_namespace :: "string \<Rightarrow> string option" where
  "re_match_namespace t =
     (case t of
        [] \<Rightarrow> None
      | c # r \<Rightarrow>
          if c \<noteq> CHR ''{'' then None
          else (let line = takeWhile (\<lambda>x. x \<noteq> CHR 0x0A) r;
                    upto = rev (dropWhile (\<lambda>x. x \<noteq> CHR ''}'') (rev line))
                in if 2 \<le> length upto then Some (butlast upto) else None))"

text \<open>
  \<open>find_namespace\<close> returns the namespace dictionary and the object. Without a match
  it returns \<open>{}\<close> and leaves \<open>self.namespace\<close> as it was.
\<close>

definition find_namespace :: "bus_state \<Rightarrow> element \<Rightarrow> string dict \<times> bus_state" where
  "find_namespace st root_elem =
     (case re_match_namespace (tag root_elem) of
        Some ns \<Rightarrow> ([(''ns'', ns)], st\<lparr>namespace := Some ns\<rparr>)
      | None \<Rightarrow> ([], st))"

definition get_tag :: "bus_state \<Rightarrow> string \<Rightarrow> string" where
  "get_tag st name =
     (case namespace st of
        None \<Rightarrow> name
      | Some ns \<Rightarrow> if ns \<noteq> [] then ''{'' @ ns @ ''}'' @ name else name)"

text \<open>
  \<open>safe_get_text(element, path)\<close>; every call leaves the default at \<open>''\<close>. The element
  may be \<open>None\<close>.
\<close>

definition safe_get_text :: "element option \<Rightarrow> path \<Rightarrow> string" where
  "safe_get_text element p =
     (case element of
        None \<Rightarrow> []
      | Some e \<Rightarrow>
          (case find_elem e p of
             None \<Rightarrow> []
           | Some found \<Rightarrow>
               (case etext found of
                  None \<Rightarrow> []
                | Some t \<Rightarrow> if t \<noteq> [] then py_strip t else [])))"

text \<open>\<open>extract_stops\<close>: the loop over the stop references, then \<open>len(self.stops_data)\<close>.\<close>

fun extract_stops_loop :: "bus_state \<Rightarrow> element list \<Rightarrow> bus_state" where
  "extract_stops_loop st [] = st"
| "extract_stops_loop st (stop # rest) =
     (let stop_id = safe_get_text (Some stop) (Child (get_tag st ''StopPointRef'')) in
      if stop_id \<noteq> [] then
        extract_stops_loop
          (st\<lparr>stops_data := AList.update stop_id
                [(''stop_id'', stop_id),
                 (''stop_name'', safe_get_text (Some stop) (Child (get_tag st ''CommonName''))),
                 (''longitude'', safe_get_text (Some stop) (Desc (get_tag st ''Longitude''))),
                 (''latitude'', safe_get_text (Some stop) (Desc (get_tag st ''Latitude'')))]
                (stops_data st)\<rparr>) rest
      else extract_stops_loop st rest)"

definition bus_extract_stops :: "bus_state \<Rightarrow> element \<Rightarrow> int \<times> bus_state" where
  "bus_extract_stops st tree_root =
     (let st' = extract_stops_loop st (findall tree_root (Desc (get_tag st ''AnnotatedStopPointRef'')))
      in (int (length (stops_data st')), st'))"

fun extract_operators_loop :: "bus_state \<Rightarrow> element list \<Rightarrow> bus_state" where
  "extract_operators_loop st [] = st"
| "extract_operators_loop st (oper # rest) =
     (let op_id = attr_get oper ''id'' ''unknown'' in
      extract_operators_loop
        (st\<lparr>operator_info := AList.update op_id
              [(''operator_id'', op_id),
               (''national_code'', safe_get_text (Some oper) (Child (get_tag st ''NationalOperatorCode''))),
               (''operator_code'', safe_get_text (Some oper) (Child (get_tag st ''OperatorCode''))),
               (''operator_name'', safe_get_text (Some oper) (Child (get_tag st ''OperatorShortName''))),
               (''licence_number'', safe_get_text (Some oper) (Child (get_tag st ''LicenceNumber'')))]
              (operator_info st)\<rparr>) rest)"

definition bus_extract_operators :: "bus_state \<Rightarrow> element \<Rightarrow> int \<times> bus_state" where
  "bus_extract_operators st tree_root =
     (let st' = extract_operators_loop st (findall tree_root (Desc (get_tag st ''Operator'')))
      in (int (length (operator_info st')), st'))"

text \<open>
  \<open>extract_services\<close>: the body of the loop ends in \<open>break\<close>, so only the first element of
  \<open>services\<close> is looked at.
\<close>

definition bus_extract_services :: "bus_state \<Rightarrow> element \<Rightarrow> int \<times> bus_state" where
  "bus_extract_services st tree_root =
     (let st' =
        (case findall tree_root (Desc (get_tag st ''Service'')) of
           [] \<Rightarrow> st
         | svc # later \<Rightarrow>
             (let svc_code = safe_get_text (Some svc) (Child (get_tag st ''ServiceCode''));
                  line_name = safe_get_text (Some svc) (Desc (get_tag st ''LineName''))
              in st\<lparr>service_info :=
                   [(''service_code'', svc_code),
                    (''line_name'', line_name),
                    (''origin'', safe_get_text (Some svc) (Desc (get_tag st ''Origin''))),
                    (''destination'', safe_get_text (Some svc) (Desc (get_tag st ''Destination''))),
                    (''outbound_desc'', safe_get_text (Some svc)
                        (DescChild (get_tag st ''OutboundDescription'') (get_tag st ''Description''))),
                    (''inbound_desc'', safe_get_text (Some svc)
                        (DescChild (get_tag st ''InboundDescription'') (get_tag st ''Description''))),
                    (''start_date'', safe_get_text (Some svc) (Desc (get_tag st ''StartDate''))),
                    (''end_date'', safe_get_text (Some svc) (Desc (get_tag st ''EndDate''))),
                    (''public_use'', safe_get_text (Some svc) (Child (get_tag st ''PublicUse'')))]\<rparr>))
      in ((if service_info st' \<noteq> [] then 1 else 0), st'))"

text \<open>The body of the inner loop of \<open>extract_timing_links\<close>: the segment of one link.\<close>

definition link_segment :: "bus_state \<Rightarrow> string \<Rightarrow> string \<Rightarrow> element \<Rightarrow> pyval dict" where
  "link_segment st source_file section_id link =
     (let link_id = attr_get link ''id'' [];
          from_elem = find_elem link (Child (get_tag st ''From''));
          to_elem = find_elem link (Child (get_tag st ''To''));
          from_stop = (if from_elem \<noteq> None
                       then safe_get_text from_elem (Child (get_tag st ''StopPointRef'')) else []);
          to_stop = (if to_elem \<noteq> None
                     then safe_get_text to_elem (Child (get_tag st ''StopPointRef'')) else []);
          from_seq = (case from_elem of Some e \<Rightarrow> attr_get e ''SequenceNumber'' [] | None \<Rightarrow> []);
          to_seq = (case to_elem of Some e \<Rightarrow> attr_get e ''SequenceNumber'' [] | None \<Rightarrow> []);
          from_timing = (if from_elem \<noteq> None
                         then safe_get_text from_elem (Child (get_tag st ''TimingStatus'')) else []);
          to_timing = (if to_elem \<noteq> None
                       then safe_get_text to_elem (Child (get_tag st ''TimingStatus'')) else []);
          from_activity = (if from_elem \<noteq> None
                           then safe_get_text from_elem (Child (get_tag st ''Activity'')) else []);
          runtime_raw = safe_get_text (Some link) (Child (get_tag st ''RunTime''));
          runtime_secs = bus_parse_duration (Some runtime_raw);
          route_link_ref = safe_get_text (Some link) (Child (get_tag st ''RouteLinkRef''));
          from_stop_info = dict_get (stops_data st) from_stop [];
          to_stop_info = dict_get (stops_data st) to_stop []
      in [(''source_file'', PStr source_file),
          (''section_id'', PStr section_id),
          (''timing_link_id'', PStr link_id),
          (''from_stop_id'', PStr from_stop),
          (''from_stop_name'', PStr (dict_get from_stop_info ''stop_name'' [])),
          (''from_latitude'', PStr (dict_get from_stop_info ''latitude'' [])),
          (''from_longitude'', PStr (dict_get from_stop_info ''longitude'' [])),
          (''from_sequence'', PStr from_seq),
          (''from_timing_status'', PStr from_timing),
          (''from_activity'', PStr from_activity),
          (''to_stop_id'', PStr to_stop),
          (''to_stop_name'', PStr (dict_get to_stop_info ''stop_name'' [])),
          (''to_latitude'', PStr (dict_get to_stop_info ''latitude'' [])),
          (''to_longitude'', PStr (dict_get to_stop_info ''longitude'' [])),
          (''to_sequence'', PStr to_seq),
          (''to_timing_status'', PStr to_timing),
          (''runtime_raw'', PStr runtime_raw),
          (''runtime_seconds'', PInt runtime_secs),
          (''route_link_ref'', PStr route_link_ref),
          (''line_name'', PStr (dict_get (service_info st) ''line_name'' [])),
          (''operator_name'', PStr (case operator_info st of
                                      [] \<Rightarrow> []
                                    | first_op # others \<Rightarrow> dict_get (snd first_op) ''operator_name'' [])),
          (''service_origin'', PStr (dict_get (service_info st) ''origin'' [])),
          (''service_destination'', PStr (dict_get (service_info st) ''destination'' [])),
          (''service_code'', PStr (dict_get (service_info st) ''service_code'' []))])"

text \<open>The two loops of \<open>extract_timing_links\<close>, each appending to \<open>segments\<close>.\<close>

fun timing_links_loop ::
  "bus_state \<Rightarrow> string \<Rightarrow> string \<Rightarrow> element list \<Rightarrow> pyval dict list \<Rightarrow> pyval dict list" where
  "timing_links_loop st source_file section_id [] segments = segments"
| "timing_links_loop st source_file section_id (link # rest) segments =
     timing_links_loop st source_file section_id rest
       (segments @ [link_segment st source_file section_id link])"

fun sections_loop ::
  "bus_state \<Rightarrow> string \<Rightarrow> element list \<Rightarrow> pyval dict list \<Rightarrow> pyval dict list" where
  "sections_loop st source_file [] segments = segments"
| "sections_loop st source_file (section # rest) segments =
     sections_loop st source_file rest
       (timing_links_loop st source_file (attr_get section ''id'' [])
          (findall section (Child (get_tag st ''JourneyPatternTimingLink''))) segments)"

definition extract_timing_links :: "bus_state \<Rightarrow> element \<Rightarrow> string \<Rightarrow> pyval dict list" where
  "extract_timing_links st tree_root source_file =
     sections_loop st source_file
       (findall tree_root (Desc (get_tag st ''JourneyPatternSection''))) []"

text \<open>
  The result dictionary of \<open>process_single_file\<close>. An exception anywhere in the body is
  caught and reported in \<open>status\<close>; in the model the one statement that can raise is
  \<open>ET.parse\<close>. The assignments made before a raise are kept, as in the object.
\<close>

record extraction_result =
  filename :: string
  stops_found :: int
  operators_found :: int
  services_found :: int
  segments_found :: int
  data :: "pyval dict list"
  status :: string

definition process_single_file :: "bus_state \<Rightarrow> xml_file \<Rightarrow> extraction_result \<times> bus_state" where
  "process_single_file st xml_path =
     (case snd xml_path of
        Inl ex \<Rightarrow>
          (\<lparr> filename = fst xml_path, stops_found = 0, operators_found = 0,
             services_found = 0, segments_found = 0, data = [],
             status = ''error: '' @ ex \<rparr>, st)
      | Inr xroot \<Rightarrow>
          (let (ns, st1) = find_namespace st xroot;
               st2 = st1\<lparr>stops_data := [], operator_info := [], service_info := []\<rparr>;
               (stops_count, st3) = bus_extract_stops st2 xroot;
               (ops_count, st4) = bus_extract_operators st3 xroot;
               (svc_count, st5) = bus_extract_services st4 xroot;
               file_segments = extract_timing_links st5 xroot (fst xml_path)
           in (\<lparr> filename = fst xml_path, stops_found = stops_count,
                  operators_found = ops_count, services_found = svc_count,
                  segments_found = int (length file_segments), data = file_segments,
                  status = ''success'' \<rparr>, st5)))"

record summary_stats =
  total_files :: int
  successful :: int
  failed :: int
  total_segments :: int
  total_stops :: int

text \<open>The loop of \<open>process_all_files\<close> over the files, with its two accumulators.\<close>

fun files_loop ::
  "bus_state \<Rightarrow> xml_file list \<Rightarrow> pyval dict list \<Rightarrow> summary_stats
     \<Rightarrow> bus_state \<times> pyval dict list \<times> summary_stats" where
  "files_loop st [] all_segments stats = (st, all_segments, stats)"
| "files_loop st (xml_file # rest) all_segments stats =
     (let res = process_single_file st xml_file in
      if status (fst res) = ''success'' then
        files_loop (snd res) rest (all_segments @ data (fst res))
          (stats\<lparr>successful := successful stats + 1,
                 total_segments := total_segments stats + segments_found (fst res),
                 total_stops := total_stops stats + stops_found (fst res)\<rparr>)
      else
        files_loop (snd res) rest all_segments (stats\<lparr>failed := failed stats + 1\<rparr>))"

text \<open>
  \<open>process_all_files\<close>: without files it returns the empty list (here \<open>None\<close>) and leaves
  the object alone; otherwise it returns the statistics and stores the segments.
\<close>

definition process_all_files :: "bus_state \<Rightarrow> xml_file list \<Rightarrow> summary_stats option \<times> bus_state" where
  "process_all_files st xml_files =
     (if xml_files = [] then (None, st)
      else (case files_loop st xml_files []
                   \<lparr> total_files = int (length xml_files), successful = 0, failed = 0,
                     total_segments = 0, total_stops = 0 \<rparr> of
              (st', all_segments, stats) \<Rightarrow>
                (Some stats, st'\<lparr>timing_segments := all_segments\<rparr>)))"







section \<open>XMLExtractor\<close>

record xml_state =
  all_records :: "pyval dict list"
  all_fields :: "string set"
  field_counts :: "int dict"
  files_processed :: int

definition xml_init :: xml_state where
  "xml_init = \<lparr> all_records = [], all_fields = {}, field_counts = [], files_processed = 0 \<rparr>"

definition get_text :: "element \<Rightarrow> string" where
  "get_text e = (case etext e of None \<Rightarrow> [] | Some t \<Rightarrow> if t \<noteq> [] then py_strip t else [])"

text \<open>\<open>tag.split('}')[-1]\<close>: what follows the last closing brace.\<close>

definition local_name :: "string \<Rightarrow> string" where
  "local_name t = rev (takeWhile (\<lambda>c. c \<noteq> CHR ''}'') (rev t))"

text \<open>\<open>extract_stops\<close>: the loops over a location's children, a stop's children and the tree.\<close>

fun location_loop :: "element list \<Rightarrow> string dict \<Rightarrow> string dict" where
  "location_loop [] stop_data = stop_data"
| "location_loop (loc_child # rest) stop_data =
     (let loc_tag = local_name (tag loc_child) in
      if loc_tag = ''Latitude'' then
        location_loop rest (AList.update ''latitude'' (get_text loc_child) stop_data)
      else if loc_tag = ''Longitude'' then
        location_loop rest (AList.update ''longitude'' (get_text loc_child) stop_data)
      else location_loop rest stop_data)"

fun stop_children_loop :: "element list \<Rightarrow> string \<Rightarrow> string dict \<Rightarrow> string \<times> string dict" where
  "stop_children_loop [] stop_id stop_data = (stop_id, stop_data)"
| "stop_children_loop (child # rest) stop_id stop_data =
     (let child_tag = local_name (tag child) in
      if child_tag = ''StopPointRef'' \<or> child_tag = ''AtcoCode'' then
        stop_children_loop rest (get_text child)
          (AList.update ''stop_id'' (get_text child) stop_data)
      else if child_tag = ''CommonName'' then
        stop_children_loop rest stop_id (AList.update ''stop_name'' (get_text child) stop_data)
      else if child_tag = ''LocalityName'' then
        stop_children_loop rest stop_id (AList.update ''locality'' (get_text child) stop_data)
      else if child_tag = ''Location'' then
        stop_children_loop rest stop_id (location_loop (children child) stop_data)
      else stop_children_loop rest stop_id stop_data)"

fun stops_loop :: "element list \<Rightarrow> string dict dict \<Rightarrow> string dict dict" where
  "stops_loop [] stops = stops"
| "stops_loop (stop # rest) stops =
     (let t = local_name (tag stop) in
      if t = ''StopPoint'' \<or> t = ''AnnotatedStopPointRef'' then
        (case stop_children_loop (children stop) [] [] of
           (stop_id, stop_data) \<Rightarrow>
             if stop_id \<noteq> [] then stops_loop rest (AList.update stop_id stop_data stops)
             else stops_loop rest stops)
      else stops_loop rest stops)"

definition xml_extract_stops :: "element \<Rightarrow> string dict dict" where
  "xml_extract_stops xroot = stops_loop (iter xroot) []"

text \<open>
  \<open>_extract_stop_point\<close> writes into the record it is given; the model returns the
  record.
\<close>

fun stop_point_loop ::
  "element list \<Rightarrow> pyval dict \<Rightarrow> string \<Rightarrow> string dict dict \<Rightarrow> pyval dict" where
  "stop_point_loop [] record prefix stops = record"
| "stop_point_loop (child # rest) record prefix stops =
     (let child_tag = local_name (tag child) in
      if child_tag = ''StopPointRef'' then
        (let stop_id = get_text child;
             record1 = AList.update (prefix @ ''_stop_id'') (PStr stop_id) record
         in (case map_of stops stop_id of
               Some stop \<Rightarrow>
                 stop_point_loop rest
                   (AList.update (prefix @ ''_longitude'') (PStr (dict_get stop ''longitude'' []))
                     (AList.update (prefix @ ''_latitude'') (PStr (dict_get stop ''latitude'' []))
                       (AList.update (prefix @ ''_stop_name'') (PStr (dict_get stop ''stop_name'' []))
                          record1)))
                   prefix stops
             | None \<Rightarrow> stop_point_loop rest record1 prefix stops))
      else if child_tag = ''SequenceNumber'' then
        stop_point_loop rest
          (AList.update (prefix @ ''_sequence'') (PStr (get_text child)) record) prefix stops
      else if child_tag = ''TimingStatus'' then
        stop_point_loop rest
          (AList.update (prefix @ ''_timing_status'') (PStr (get_text child)) record) prefix stops
      else if child_tag = ''Activity'' then
        stop_point_loop rest
          (AList.update (prefix @ ''_activity'') (PStr (get_text child)) record) prefix stops
      else stop_point_loop rest record prefix stops)"

definition extract_stop_point ::
  "element \<Rightarrow> pyval dict \<Rightarrow> string \<Rightarrow> string dict dict \<Rightarrow> pyval dict" where
  "extract_stop_point element record prefix stops =
     stop_point_loop (children element) record prefix stops"

text \<open>
  \<open>extract_route_sections\<close>. \<open>parse_duration\<close> is called outside any \<open>try\<close>, so a raise
  there would leave the three loops; \<open>Inl\<close> carries it to \<open>process_file\<close>.
\<close>

fun link_children_loop ::
  "element list \<Rightarrow> pyval dict \<Rightarrow> string dict dict \<Rightarrow> py_error + pyval dict" where
  "link_children_loop [] record stops = Inr record"
| "link_children_loop (child # rest) record stops =
     (let child_tag = local_name (tag child) in
      if child_tag = ''From'' then
        link_children_loop rest (extract_stop_point child record ''from'' stops) stops
      else if child_tag = ''To'' then
        link_children_loop rest (extract_stop_point child record ''to'' stops) stops
      else if child_tag = ''RunTime'' then
        (let runtime_raw = get_text child in
         (case xml_parse_duration (Some runtime_raw) of
            Inl e \<Rightarrow> Inl e
          | Inr secs \<Rightarrow>
              link_children_loop rest
                (AList.update ''runtime_seconds'' (case secs of None \<Rightarrow> PNone | Some n \<Rightarrow> PInt n)
                  (AList.update ''runtime_raw'' (PStr runtime_raw) record)) stops))
      else if child_tag = ''RouteLinkRef'' then
        link_children_loop rest
          (AList.update ''route_link_ref'' (PStr (get_text child)) record) stops
      else link_children_loop rest record stops)"

text \<open>The record of one timing link, before the test that keeps or drops it.\<close>

definition link_record ::
  "string \<Rightarrow> string \<Rightarrow> string dict dict \<Rightarrow> element \<Rightarrow> py_error + pyval dict" where
  "link_record file_name section_id stops link =
     link_children_loop (children link)
       [(''source_file'', PStr file_name),
        (''section_id'', PStr section_id),
        (''timing_link_id'', PStr (attr_get link ''id'' []))] stops"

definition keep_record :: "pyval dict \<Rightarrow> bool" where
  "keep_record record =
     (truthy (rec_get record ''from_stop_id'') \<or> truthy (rec_get record ''to_stop_id''))"

fun section_links_loop ::
  "string \<Rightarrow> string \<Rightarrow> string dict dict \<Rightarrow> element list \<Rightarrow> pyval dict list
     \<Rightarrow> py_error + pyval dict list" where
  "section_links_loop file_name section_id stops [] records = Inr records"
| "section_links_loop file_name section_id stops (link # rest) records =
     (if local_name (tag link) = ''JourneyPatternTimingLink'' then
        (case link_record file_name section_id stops link of
           Inl e \<Rightarrow> Inl e
         | Inr record \<Rightarrow>
             if keep_record record
             then section_links_loop file_name section_id stops rest (records @ [record])
             else section_links_loop file_name section_id stops rest records)
      else section_links_loop file_name section_id stops rest records)"

fun route_sections_loop ::
  "string \<Rightarrow> string dict dict \<Rightarrow> element list \<Rightarrow> pyval dict list \<Rightarrow> py_error + pyval dict list" where
  "route_sections_loop file_name stops [] records = Inr records"
| "route_sections_loop file_name stops (section # rest) records =
     (if local_name (tag section) = ''JourneyPatternSection'' then
        (case section_links_loop file_name (attr_get section ''id'' []) stops
                (children section) records of
           Inl e \<Rightarrow> Inl e
         | Inr records' \<Rightarrow> route_sections_loop file_name stops rest records')
      else route_sections_loop file_name stops rest records)"

definition extract_route_sections ::
  "element \<Rightarrow> string dict dict \<Rightarrow> string \<Rightarrow> py_error + pyval dict list" where
  "extract_route_sections xroot stops file_name =
     route_sections_loop file_name stops (iter xroot) []"

text \<open>\<open>XMLExtractor.extract_services\<close>: one pass over every element of the tree.\<close>

fun services_loop :: "element list \<Rightarrow> string dict \<Rightarrow> string dict" where
  "services_loop [] service_data = service_data"
| "services_loop (elem # rest) service_data =
     (let t = local_name (tag elem) in
      if t = ''LineName'' then
        services_loop rest (AList.update ''line_name'' (get_text elem) service_data)
      else if t = ''ServiceCode'' then
        services_loop rest (AList.update ''service_code'' (get_text elem) service_data)
      else if t = ''Origin'' \<and> map_of service_data ''service_origin'' = None then
        services_loop rest (AList.update ''service_origin'' (get_text elem) service_data)
      else if t = ''Destination'' \<and> map_of service_data ''service_destination'' = None then
        services_loop rest (AList.update ''service_destination'' (get_text elem) service_data)
      else services_loop rest service_data)"

definition xml_extract_services :: "element \<Rightarrow> string dict" where
  "xml_extract_services xroot = services_loop (iter xroot) []"

fun operators_loop :: "element list \<Rightarrow> string dict" where
  "operators_loop [] = []"
| "operators_loop (elem # rest) =
     (let t = local_name (tag elem) in
      if t = ''OperatorShortName'' \<or> t = ''TradingName''
      then [(''operator_name'', get_text elem)]
      else operators_loop rest)"

definition xml_extract_operators :: "element \<Rightarrow> string dict" where
  "xml_extract_operators xroot = operators_loop (iter xroot)"

text \<open>
  \<open>process_file\<close>: the enrichment of one record (\<open>record.update\<close>), the bookkeeping of
  the fields seen, and the method. Each \<open>except\<close> branch returns 0 with the object
  unchanged.
\<close>

definition enrich :: "string dict \<Rightarrow> string dict \<Rightarrow> pyval dict \<Rightarrow> pyval dict" where
  "enrich service_data operator_data record =
     AList.update ''service_code'' (PStr (dict_get service_data ''service_code'' []))
      (AList.update ''service_destination'' (PStr (dict_get service_data ''service_destination'' []))
       (AList.update ''service_origin'' (PStr (dict_get service_data ''service_origin'' []))
        (AList.update ''operator_name'' (PStr (dict_get operator_data ''operator_name'' []))
         (AList.update ''line_name'' (PStr (dict_get service_data ''line_name'' [])) record))))"

fun count_fields :: "(string \<times> pyval) list \<Rightarrow> xml_state \<Rightarrow> xml_state" where
  "count_fields [] st = st"
| "count_fields (kv # rest) st =
     (let st1 = st\<lparr>all_fields := insert (fst kv) (all_fields st)\<rparr> in
      if truthy (snd kv) then
        count_fields rest
          (st1\<lparr>field_counts := AList.update (fst kv)
                  (dict_get (field_counts st1) (fst kv) 0 + 1) (field_counts st1)\<rparr>)
      else count_fields rest st1)"

fun enrich_loop ::
  "string dict \<Rightarrow> string dict \<Rightarrow> pyval dict list \<Rightarrow> pyval dict list \<Rightarrow> xml_state
     \<Rightarrow> pyval dict list \<times> xml_state" where
  "enrich_loop service_data operator_data [] done_records st = (done_records, st)"
| "enrich_loop service_data operator_data (record # rest) done_records st =
     (let record' = enrich service_data operator_data record in
      enrich_loop service_data operator_data rest (done_records @ [record'])
        (count_fields record' st))"

definition process_file :: "xml_state \<Rightarrow> xml_file \<Rightarrow> int \<times> xml_state" where
  "process_file st filepath =
     (case snd filepath of
        Inl ex \<Rightarrow> (0, st)
      | Inr xroot \<Rightarrow>
          (let stops = xml_extract_stops xroot;
               service_data = xml_extract_services xroot;
               operator_data = xml_extract_operators xroot
           in (case extract_route_sections xroot stops (fst filepath) of
                 Inl e \<Rightarrow> (0, st)
               | Inr found \<Rightarrow>
                   (case enrich_loop service_data operator_data found [] st of
                      (records, st') \<Rightarrow>
                        (int (length records),
                         st'\<lparr>all_records := all_records st' @ records,
                             files_processed := files_processed st' + 1\<rparr>)))))"

section \<open>Auxiliary definitions for the statements\<close>

text \<open>
  The definitions of this section are not code of the repository: they name what the
  statements below speak about. \<open>is_success\<close> is the test \<open>result['status'] == 'success'\<close>
  of the batch loop; \<open>batch_results st files\<close> are the results \<open>process_single_file\<close>
  returns to that loop, file after file, the object being handed on from one call to
  the next, and \<open>batch_state\<close> is the object after the last file; \<open>tally\<close> adds the
  counts of a list of results to the statistics; \<open>parsed\<close> says that \<open>ET.parse\<close> did not
  raise on a file.
\<close>

definition is_success :: "extraction_result \<Rightarrow> bool" where
  "is_success r = (status r = ''success'')"

fun batch_results :: "bus_state \<Rightarrow> xml_file list \<Rightarrow> extraction_result list" where
  "batch_results st [] = []"
| "batch_results st (f # rest) =
     fst (process_single_file st f) # batch_results (snd (process_single_file st f)) rest"

fun batch_state :: "bus_state \<Rightarrow> xml_file list \<Rightarrow> bus_state" where
  "batch_state st [] = st"
| "batch_state st (f # rest) = batch_state (snd (process_single_file st f)) rest"

definition tally :: "summary_stats \<Rightarrow> extraction_result list \<Rightarrow> summary_stats" where
  "tally stats rs =
     stats\<lparr>successful := successful stats + int (length (filter is_success rs)),
           failed := failed stats + int (length (filter (\<lambda>r. \<not> is_success r) rs)),
           total_segments := total_segments stats + sum_list (map segments_found (filter is_success rs)),
           total_stops := total_stops stats + sum_list (map stops_found (filter is_success rs))\<rparr>"

text \<open>
  Two small documents: one whose root tag is unqualified, with one section holding one
  timing link, and one whose root tag carries a namespace.
\<close>

definition plain_doc :: element where
  "plain_doc = Element ''TransXChange'' [] None
     [Element ''JourneyPatternSection'' [] None
        [Element ''JourneyPatternTimingLink'' [] None []]]"

definition qualified_doc :: element where
  "qualified_doc = Element ''{http://a}TransXChange'' [] None []"


text \<open>The stop identifiers a document offers to \<open>BusDataExtractor.extract_stops\<close>.\<close>

definition stop_ref_ids :: "bus_state \<Rightarrow> element \<Rightarrow> string set" where
  "stop_ref_ids st d =
     (\<lambda>stop. safe_get_text (Some stop) (Child (get_tag st ''StopPointRef''))) `
       set (findall d (Desc (get_tag st ''AnnotatedStopPointRef'')))"

text \<open>
  For the statements about \<open>XMLExtractor.extract_stops\<close>: the children of a stop
  element that carry an identifier, the elements the scan treats as stops, and the
  identifier the inner loop ends with, which is the text of the last such child.
\<close>

definition is_id_child :: "element \<Rightarrow> bool" where
  "is_id_child c = (local_name (tag c) = ''StopPointRef'' \<or> local_name (tag c) = ''AtcoCode'')"

definition id_children :: "element \<Rightarrow> element list" where
  "id_children e = filter is_id_child (children e)"

definition is_stop_elem :: "element \<Rightarrow> bool" where
  "is_stop_elem e =
     (local_name (tag e) = ''StopPoint'' \<or> local_name (tag e) = ''AnnotatedStopPointRef'')"

definition last_id :: "element \<Rightarrow> string" where
  "last_id e = (case id_children e of [] \<Rightarrow> [] | c # cs \<Rightarrow> get_text (last (c # cs)))"

text \<open>
  The rule as the specification words it, for comparison: the first non-empty value
  among the identifier children.
\<close>

definition spec_first_nonempty_id :: "element \<Rightarrow> string" where
  "spec_first_nonempty_id e =
     (case filter (\<lambda>s. s \<noteq> []) (map get_text (id_children e)) of [] \<Rightarrow> [] | s # rest \<Rightarrow> s)"

text \<open>
  A stop element with both kinds of identifier child.
\<close>

definition two_id_stop :: element where
  "two_id_stop = Element ''StopPoint'' [] None
     [Element ''StopPointRef'' [] (Some ''S1'') [], Element ''AtcoCode'' [] (Some ''A2'') []]"

text \<open>
  A document with two services and one timing link.
\<close>

definition two_service_doc :: element where
  "two_service_doc = Element ''TransXChange'' [] None
     [Element ''Service'' [] None
        [Element ''ServiceCode'' [] (Some ''SC1'') [], Element ''LineName'' [] (Some ''L1'') [],
         Element ''Origin'' [] (Some ''O1'') []],
      Element ''Service'' [] None
        [Element ''ServiceCode'' [] (Some ''SC2'') [], Element ''LineName'' [] (Some ''L2'') [],
         Element ''Origin'' [] (Some ''O2'') []],
      Element ''JourneyPatternSection'' [] None
        [Element ''JourneyPatternTimingLink'' [] None
           [Element ''From'' [] None [Element ''StopPointRef'' [] (Some ''S1'') []]]]]"







section \<open>The batch loop of BusDataExtractor\<close>

lemma files_loop_char:
  "files_loop st fs segs stats =
     (batch_state st fs,
      segs @ concat (map data (filter is_success (batch_results st fs))),
      tally stats (batch_results st fs))"
proof (induction fs arbitrary: st segs stats)
  case Nil
  show ?case by (simp add: tally_def)
next
  case (Cons f fs)
  show ?case
    by (simp add: Cons.IH Let_def is_success_def tally_def)
qed

lemma length_batch_results: "length (batch_results st fs) = length fs"
  by (induction fs arbitrary: st) simp_all



lemma process_single_file_segments_found:
  "segments_found (fst (process_single_file st f)) = int (length (data (fst (process_single_file st f))))"
  by (cases f) (simp add: process_single_file_def Let_def split: prod.splits sum.splits)

lemma batch_results_segments_found:
  "r \<in> set (batch_results st fs) \<Longrightarrow> segments_found r = int (length (data r))"
  by (induction fs arbitrary: st) (auto simp: process_single_file_segments_found)

lemma sum_segments:
  "(\<And>r. r \<in> set rs \<Longrightarrow> segments_found r = int (length (data r))) \<Longrightarrow>
   sum_list (map segments_found rs) = int (length (concat (map data rs)))"
  by (induction rs) simp_all

lemma reset_irrelevant:
  "process_single_file (st\<lparr>stops_data := sd, operator_info := oi, service_info := si\<rparr>) (n, Inr d)
     = process_single_file st (n, Inr d)"
  by (simp add: process_single_file_def find_namespace_def Let_def split: option.splits)

lemma timing_links_loop_char:
  "timing_links_loop st f sid links segs = segs @ map (link_segment st f sid) links"
  by (induction links arbitrary: segs) simp_all

lemma sections_loop_char:
  "sections_loop st f secs segs =
     segs @ concat (map (\<lambda>sec. map (link_segment st f (attr_get sec ''id'' []))
                                  (findall sec (Child (get_tag st ''JourneyPatternTimingLink'')))) secs)"
  by (induction secs arbitrary: segs) (simp_all add: timing_links_loop_char)

lemma extract_timing_links_char:
  "extract_timing_links st r f =
     concat (map (\<lambda>sec. map (link_segment st f (attr_get sec ''id'' []))
                            (findall sec (Child (get_tag st ''JourneyPatternTimingLink''))))
                 (findall r (Desc (get_tag st ''JourneyPatternSection''))))"
  by (simp add: extract_timing_links_def sections_loop_char)

lemma extract_stops_loop_namespace: "namespace (extract_stops_loop st xs) = namespace st"
  by (induction st xs rule: extract_stops_loop.induct) (simp_all add: Let_def get_tag_def)

lemma extract_operators_loop_namespace: "namespace (extract_operators_loop st xs) = namespace st"
  by (induction st xs rule: extract_operators_loop.induct) (simp_all add: Let_def get_tag_def)

lemma bus_extract_services_namespace: "namespace (snd (bus_extract_services st r)) = namespace st"
  by (simp add: bus_extract_services_def Let_def split: list.splits)

lemma bus_extract_stops_namespace: "namespace (snd (bus_extract_stops st r)) = namespace st"
  by (simp add: bus_extract_stops_def Let_def extract_stops_loop_namespace)

lemma bus_extract_operators_namespace: "namespace (snd (bus_extract_operators st r)) = namespace st"
  by (simp add: bus_extract_operators_def Let_def extract_operators_loop_namespace)

lemma process_single_file_namespace:
  "namespace (snd (process_single_file st (n, Inr d))) =
     (case re_match_namespace (tag d) of Some ns \<Rightarrow> Some ns | None \<Rightarrow> namespace st)"
  by (simp add: process_single_file_def find_namespace_def Let_def split_beta
      bus_extract_stops_namespace bus_extract_operators_namespace
      bus_extract_services_namespace split: option.splits)

lemma process_single_file_data:
  "data (fst (process_single_file st (n, Inr d))) =
     extract_timing_links (snd (process_single_file st (n, Inr d))) d n"
  by (simp add: process_single_file_def Let_def split_beta)

lemma get_tag_cong: "namespace st = namespace st' \<Longrightarrow> get_tag st = get_tag st'"
  by (auto simp: get_tag_def fun_eq_iff)

lemma ns_q: "re_match_namespace (tag qualified_doc) = Some ''http://a''"
  by (simp add: re_match_namespace_def qualified_doc_def)

lemma ns_p: "re_match_namespace (tag plain_doc) = None"
  by (simp add: re_match_namespace_def plain_doc_def)



lemma process_all_files_nonempty:
  "fs \<noteq> [] \<Longrightarrow>
   process_all_files st fs =
     (Some (tally \<lparr> total_files = int (length fs), successful = 0, failed = 0,
                    total_segments = 0, total_stops = 0 \<rparr> (batch_results st fs)),
      (batch_state st fs)\<lparr>timing_segments :=
          concat (map data (filter is_success (batch_results st fs)))\<rparr>)"
  by (simp add: process_all_files_def files_loop_char)

lemma length_filter_split:
  "int (length (filter P xs)) + int (length (filter (\<lambda>x. \<not> P x) xs)) = int (length xs)"
  using sum_length_filter_compl [of P xs] by linarith

text \<open>
  Claim C10. After \<open>process_all_files\<close> over a batch with at least one file (without
  files there are no statistics), the statistics exist and satisfy: successful plus
  failed is the number of files; \<open>total_segments\<close> is the sum of \<open>segments_found\<close> over the
  successful results and also the length of the stored segment list; \<open>total_stops\<close> is
  the sum of \<open>stops_found\<close> over the successful results; and the stored list is made of
  the successful results' segments only.
\<close>

theorem process_all_files_summary:
  "fs \<noteq> [] \<Longrightarrow>
   (\<exists>stats st'. process_all_files st fs = (Some stats, st') \<and>
      successful stats + failed stats = total_files stats \<and>
      total_files stats = int (length fs) \<and>
      total_segments stats =
        sum_list (map segments_found (filter is_success (batch_results st fs))) \<and>
      total_segments stats = int (length (timing_segments st')) \<and>
      total_stops stats =
        sum_list (map stops_found (filter is_success (batch_results st fs))) \<and>
      timing_segments st' = concat (map data (filter is_success (batch_results st fs))))"
proof -
  assume ne: "fs \<noteq> []"
  let ?rs = "batch_results st fs"
  have seg: "sum_list (map segments_found (filter is_success ?rs))
      = int (length (concat (map data (filter is_success ?rs))))"
    by (rule sum_segments) (auto simp: batch_results_segments_found)
  have len: "int (length (filter is_success ?rs)) + int (length (filter (\<lambda>r. \<not> is_success r) ?rs))
      = int (length fs)"
    by (simp add: length_filter_split length_batch_results)
  show ?thesis
    unfolding process_all_files_nonempty [OF ne]
    using seg len by (simp add: tally_def)
qed

theorem process_all_files_summary_witness:
  "\<exists>stats st'. process_all_files bus_init
        [(''a.xml'', Inr plain_doc), (''bad.xml'', Inl ''no element found''),
         (''c.xml'', Inr plain_doc)] = (Some stats, st') \<and>
      successful stats + failed stats = total_files stats \<and>
      total_files stats = 3 \<and>
      total_segments stats = int (length (timing_segments st'))"
  using process_all_files_summary [of "[(''a.xml'', Inr plain_doc),
      (''bad.xml'', Inl ''no element found''), (''c.xml'', Inr plain_doc)]" bus_init]
  by auto



lemma plain_doc_links_qualified:
  "namespace st = Some ''http://a'' \<Longrightarrow> extract_timing_links st plain_doc f = []"
  by (simp add: extract_timing_links_char get_tag_def plain_doc_def descendants_def)

lemma plain_doc_links_plain:
  "namespace st = None \<Longrightarrow> length (extract_timing_links st plain_doc f) = 1"
  by (simp add: extract_timing_links_char get_tag_def plain_doc_def descendants_def)

text \<open>
  Claim C3, which the code does not meet. \<open>find_namespace\<close> assigns \<open>self.namespace\<close> only
  when the root tag is qualified, and \<open>process_single_file\<close> resets the three indexes but
  not the namespace. After a qualified document, the unqualified \<open>plain_doc\<close> is therefore
  searched with the earlier namespace: the object still holds it, and no segment is
  found, although the same document processed by a fresh object yields its one segment.
\<close>

theorem namespace_leak:
  "namespace (snd (process_single_file
      (snd (process_single_file bus_init (''a.xml'', Inr qualified_doc)))
      (''b.xml'', Inr plain_doc))) = Some ''http://a'' \<and>
   data (fst (process_single_file
      (snd (process_single_file bus_init (''a.xml'', Inr qualified_doc)))
      (''b.xml'', Inr plain_doc))) = [] \<and>
   length (data (fst (process_single_file bus_init (''b.xml'', Inr plain_doc)))) = 1"
proof -
  let ?st1 = "snd (process_single_file bus_init (''a.xml'', Inr qualified_doc))"
  let ?st2 = "snd (process_single_file ?st1 (''b.xml'', Inr plain_doc))"
  let ?st3 = "snd (process_single_file bus_init (''b.xml'', Inr plain_doc))"
  have n1: "namespace ?st1 = Some ''http://a''"
    by (simp add: process_single_file_namespace ns_q)
  have n2: "namespace ?st2 = Some ''http://a''"
    by (simp add: process_single_file_namespace ns_p ns_q)
  have n3: "namespace ?st3 = None"
    by (simp add: process_single_file_namespace ns_p bus_init_def)
  have d2: "extract_timing_links ?st2 plain_doc ''b.xml'' = []"
    by (rule plain_doc_links_qualified [OF n2])
  have d3: "length (extract_timing_links ?st3 plain_doc ''b.xml'') = 1"
    by (rule plain_doc_links_plain [OF n3])
  show ?thesis
    using n2 d2 d3 by (simp only: process_single_file_data)
qed

section \<open>Duration parser: what it accepts and returns\<close>

lemma units_not_digits:
  "\<not> is_digit CHR ''H''" "\<not> is_digit CHR ''M''" "\<not> is_digit CHR ''S''"
  by (simp_all add: is_digit_def)

lemma takeWhile_digits: "list_all is_digit ds \<Longrightarrow> \<not> is_digit v \<Longrightarrow> takeWhile is_digit (ds @ v # r) = ds"
  by (induction ds) simp_all

lemma dropWhile_digits: "list_all is_digit ds \<Longrightarrow> \<not> is_digit v \<Longrightarrow> dropWhile is_digit (ds @ v # r) = v # r"
  by (induction ds) simp_all

lemma match_component_present:
  "list_all is_digit ds \<Longrightarrow> ds \<noteq> [] \<Longrightarrow> \<not> is_digit u \<Longrightarrow>
   match_component u (ds @ u # r) = (Some ds, r)"
  by (simp add: match_component_def takeWhile_digits dropWhile_digits)

lemma match_component_other:
  "list_all is_digit ds \<Longrightarrow> \<not> is_digit v \<Longrightarrow> v \<noteq> u \<Longrightarrow>
   match_component u (ds @ v # r) = (None, ds @ v # r)"
  by (simp add: match_component_def takeWhile_digits dropWhile_digits)

lemma match_component_nodigit:
  "t = [] \<or> \<not> is_digit (hd t) \<Longrightarrow> match_component u t = (None, t)"
  by (cases t) (auto simp: match_component_def)

lemma match_component_sound:
  "match_component u s = (g, r) \<Longrightarrow> digits_ok g \<and> s = component_text g u @ r"
proof -
  assume a: "match_component u s = (g, r)"
  have id: "takeWhile is_digit s @ dropWhile is_digit s = s" by simp
  have dig: "list_all is_digit (takeWhile is_digit s)"
    by (simp add: list_all_iff) (meson set_takeWhileD)
  show ?thesis
  proof (cases "dropWhile is_digit s")
    case Nil
    with a show ?thesis by (simp add: match_component_def digits_ok_def component_text_def)
  next
    case (Cons c rest)
    show ?thesis
    proof (cases "takeWhile is_digit s \<noteq> [] \<and> c = u")
      case True
      with a Cons have g: "g = Some (takeWhile is_digit s)" and r: "r = rest"
        by (simp_all add: match_component_def)
      from id Cons have "s = takeWhile is_digit s @ c # rest" by simp
      with True g r dig show ?thesis
        by (simp add: digits_ok_def component_text_def)
    next
      case False
      with a Cons show ?thesis
        by (auto simp: match_component_def digits_ok_def component_text_def)
    qed
  qed
qed

lemma strip_seconds:
  "digits_ok sec \<Longrightarrow> t = [] \<or> \<not> is_digit (hd t) \<Longrightarrow>
   match_component CHR ''S'' (component_text sec CHR ''S'' @ t) = (sec, t)"
  by (cases sec)
     (simp_all add: component_text_def digits_ok_def match_component_nodigit
        match_component_present units_not_digits)

lemma strip_minutes:
  "digits_ok m \<Longrightarrow> digits_ok sec \<Longrightarrow> t = [] \<or> \<not> is_digit (hd t) \<Longrightarrow>
   match_component CHR ''M'' (component_text m CHR ''M'' @ component_text sec CHR ''S'' @ t)
     = (m, component_text sec CHR ''S'' @ t)"
  by (cases m; cases sec)
     (simp_all add: component_text_def digits_ok_def match_component_nodigit
        match_component_present match_component_other units_not_digits)

lemma strip_hours:
  "digits_ok h \<Longrightarrow> digits_ok m \<Longrightarrow> digits_ok sec \<Longrightarrow> t = [] \<or> \<not> is_digit (hd t) \<Longrightarrow>
   match_component CHR ''H''
      (component_text h CHR ''H'' @ component_text m CHR ''M'' @ component_text sec CHR ''S'' @ t)
     = (h, component_text m CHR ''M'' @ component_text sec CHR ''S'' @ t)"
  by (cases h; cases m; cases sec)
     (simp_all add: component_text_def digits_ok_def match_component_nodigit
        match_component_present match_component_other units_not_digits)









text \<open>
  \<open>spec_full_match\<close> holds of exactly the strings \<open>PT\<close>, hours, minutes, seconds with each
  component either absent or a non-empty digit string and its letter.
\<close>

lemma spec_full_match_iff:
  "spec_full_match s =
     (\<exists>h m sec. digits_ok h \<and> digits_ok m \<and> digits_ok sec \<and> s = duration_text h m sec)"
proof
  assume a: "spec_full_match s"
  then obtain r where s: "s = ''PT'' @ r"
    and e: "snd (match_component CHR ''S'' (snd (match_component CHR ''M''
            (snd (match_component CHR ''H'' r))))) = []"
    by (auto simp: spec_full_match_def split: list.splits)
  obtain h r1 where 1: "match_component CHR ''H'' r = (h, r1)" by (cases "match_component CHR ''H'' r")
  obtain m r2 where 2: "match_component CHR ''M'' r1 = (m, r2)" by (cases "match_component CHR ''M'' r1")
  obtain sec r3 where 3: "match_component CHR ''S'' r2 = (sec, r3)" by (cases "match_component CHR ''S'' r2")
  from e 1 2 3 have "r3 = []" by simp
  with match_component_sound [OF 1] match_component_sound [OF 2] match_component_sound [OF 3] s
  show "\<exists>h m sec. digits_ok h \<and> digits_ok m \<and> digits_ok sec \<and> s = duration_text h m sec"
    by (auto simp: duration_text_def)
next
  assume "\<exists>h m sec. digits_ok h \<and> digits_ok m \<and> digits_ok sec \<and> s = duration_text h m sec"
  then obtain h m sec where d: "digits_ok h" "digits_ok m" "digits_ok sec"
    and s: "s = duration_text h m sec" by blast
  have t: "([]::string) = [] \<or> \<not> is_digit (hd [])" by simp
  show "spec_full_match s"
    using strip_hours [OF d t] strip_minutes [OF d(2,3) t] strip_seconds [OF d(3) t]
    by (simp add: spec_full_match_def s duration_text_def)
qed



lemma digit_vals:
  "digit_val CHR ''0'' = 0" "digit_val CHR ''1'' = 1" "digit_val CHR ''2'' = 2"
  "digit_val CHR ''3'' = 3" "digit_val CHR ''4'' = 4" "digit_val CHR ''5'' = 5"
  by (simp_all add: digit_val_def)


lemma more_digit_vals: "digit_val CHR ''7'' = 7"
  by (simp add: digit_val_def)


text \<open>
  The remaining examples of the specification.
\<close>

lemma parse_duration_examples:
  "bus_parse_duration (Some ''PT2H'') = 7200 \<and> xml_parse_duration (Some ''PT2H'') = Inr (Some 7200) \<and>
   bus_parse_duration (Some ''PT45S'') = 45 \<and> xml_parse_duration (Some ''PT45S'') = Inr (Some 45) \<and>
   bus_parse_duration (Some []) = 0 \<and> xml_parse_duration (Some []) = Inr None"
  by (simp add: xml_parse_duration_def bus_parse_duration_def
      re_match_duration_def match_component_def is_digit_def duration_seconds_def
      group_int_def py_int_def digit_vals Let_def)

section \<open>Index reset between documents\<close>

lemma extract_stops_loop_keys:
  "fst ` set (stops_data (extract_stops_loop st xs)) \<subseteq>
     fst ` set (stops_data st) \<union>
     (\<lambda>stop. safe_get_text (Some stop) (Child (get_tag st ''StopPointRef''))) ` set xs"
proof (induction st xs rule: extract_stops_loop.induct)
  case (1 st)
  show ?case by simp
next
  case (2 st stop rest)
  show ?case
  proof (cases "safe_get_text (Some stop) (Child (get_tag st ''StopPointRef'')) = []")
    case True
    with 2 show ?thesis by (auto simp: Let_def)
  next
    case False
    with 2(1) [OF refl False] show ?thesis
      by (auto simp: Let_def get_tag_def dom_update)
  qed
qed

lemma extract_operators_loop_stops: "stops_data (extract_operators_loop st xs) = stops_data st"
  by (induction st xs rule: extract_operators_loop.induct) (simp_all add: Let_def)

lemma bus_extract_operators_stops: "stops_data (snd (bus_extract_operators st r)) = stops_data st"
  by (simp add: bus_extract_operators_def Let_def extract_operators_loop_stops)

lemma bus_extract_services_stops: "stops_data (snd (bus_extract_services st r)) = stops_data st"
  by (simp add: bus_extract_services_def Let_def split: list.splits)

lemma find_namespace_namespace:
  "namespace (snd (find_namespace st d)) = namespace (snd (process_single_file st (n, Inr d)))"
  by (simp add: process_single_file_namespace find_namespace_def split: option.splits)

lemma process_single_file_stop_ids:
  "fst ` set (stops_data (snd (process_single_file st (n, Inr d)))) \<subseteq>
     stop_ref_ids (snd (process_single_file st (n, Inr d))) d"
proof -
  let ?st2 = "(snd (find_namespace st d))\<lparr>stops_data := [], operator_info := [], service_info := []\<rparr>"
  have ns: "namespace ?st2 = namespace (snd (process_single_file st (n, Inr d)))"
    by (simp add: find_namespace_namespace [of st d n])
  have "stops_data (snd (process_single_file st (n, Inr d))) =
      stops_data (extract_stops_loop ?st2 (findall d (Desc (get_tag ?st2 ''AnnotatedStopPointRef''))))"
    by (simp add: process_single_file_def Let_def split_beta bus_extract_services_stops
        bus_extract_operators_stops bus_extract_stops_def)
  moreover have "fst ` set (stops_data (extract_stops_loop ?st2
        (findall d (Desc (get_tag ?st2 ''AnnotatedStopPointRef''))))) \<subseteq> stop_ref_ids ?st2 d"
    using extract_stops_loop_keys [of ?st2 "findall d (Desc (get_tag ?st2 ''AnnotatedStopPointRef''))"]
    by (simp add: stop_ref_ids_def)
  moreover have "stop_ref_ids ?st2 d = stop_ref_ids (snd (process_single_file st (n, Inr d))) d"
    unfolding stop_ref_ids_def get_tag_cong [OF ns] ..
  ultimately show ?thesis by simp
qed

lemma count_fields_all_records: "all_records (count_fields kvs st) = all_records st"
  by (induction kvs st rule: count_fields.induct) (simp_all add: Let_def)

lemma enrich_loop_fst:
  "fst (enrich_loop sd od recs acc st) = acc @ map (enrich sd od) recs"
  by (induction recs arbitrary: acc st) (simp_all add: Let_def)

lemma enrich_loop_all_records:
  "all_records (snd (enrich_loop sd od recs acc st)) = all_records st"
  by (induction recs arbitrary: acc st) (simp_all add: Let_def count_fields_all_records)

lemma process_file_all_records:
  "all_records (snd (process_file xst f)) =
     all_records xst @ all_records (snd (process_file xml_init f))"
  by (simp add: process_file_def Let_def split_beta enrich_loop_fst enrich_loop_all_records
      xml_init_def split: sum.splits)

text \<open>
  Claim C9. In \<open>BusDataExtractor\<close> the outcome of processing a parsed document (the
  result and the object afterwards) is the same whatever the stop, operator and service
  indexes held before, and every stop identifier in the index afterwards is one the
  document itself offers; in \<open>XMLExtractor\<close> the indexes are local to \<open>process_file\<close>, and
  the records a file adds are those a fresh object would get from it.
\<close>

theorem index_reset:
  "process_single_file (st\<lparr>stops_data := sd, operator_info := oi, service_info := si\<rparr>) (n, Inr d)
     = process_single_file st (n, Inr d) \<and>
   (\<forall>k \<in> fst ` set (stops_data (snd (process_single_file st (n, Inr d)))).
      k \<in> stop_ref_ids (snd (process_single_file st (n, Inr d))) d) \<and>
   all_records (snd (process_file xst f)) =
     all_records xst @ all_records (snd (process_file xml_init f))"
  using process_single_file_stop_ids [of st n d] process_file_all_records [of xst f]
  by (auto simp: reset_irrelevant)

theorem index_reset_witness:
  "process_single_file
      ((snd (process_single_file bus_init (''a.xml'', Inr plain_doc)))
         \<lparr>stops_data := [(''S9'', [])], operator_info := [], service_info := []\<rparr>)
      (''b.xml'', Inr plain_doc)
     = process_single_file (snd (process_single_file bus_init (''a.xml'', Inr plain_doc)))
         (''b.xml'', Inr plain_doc)"
  using index_reset [where st = "snd (process_single_file bus_init (''a.xml'', Inr plain_doc))"
      and sd = "[(''S9'', [])]" and oi = "[]" and si = "[]" and n = "''b.xml''"
      and d = plain_doc and xst = xml_init and f = "(''b.xml'', Inr plain_doc)"]
  by simp

section \<open>Quality analyzer\<close>





lemma one_segment_count:
  "filter (\<lambda>seg. truthy (rec_get seg ''line_name'')) [[(''line_name'', PStr ''X'')]]
     = [[(''line_name'', PStr ''X'')]]"
  by (simp add: rec_get_def dict_get_def)



section \<open>Stop index of XMLExtractor\<close>

lemma stop_children_loop_id_step:
  "is_id_child c \<Longrightarrow>
   stop_children_loop (c # cs) sid sd =
     stop_children_loop cs (get_text c) (AList.update ''stop_id'' (get_text c) sd)"
  by (simp add: is_id_child_def Let_def)

lemma stop_children_loop_other_step:
  "\<not> is_id_child c \<Longrightarrow>
   \<exists>sd'. stop_children_loop (c # cs) sid sd = stop_children_loop cs sid sd'"
  by (auto simp: is_id_child_def Let_def)

lemma stop_children_loop_fst:
  "fst (stop_children_loop cs sid sd) =
     (case filter is_id_child cs of [] \<Rightarrow> sid | c # rest \<Rightarrow> get_text (last (c # rest)))"
proof (induction cs arbitrary: sid sd)
  case Nil
  show ?case by simp
next
  case (Cons c cs)
  show ?case
  proof (cases "is_id_child c")
    case True
    then show ?thesis
      by (simp only: stop_children_loop_id_step [OF True] Cons.IH)
         (simp split: list.splits)
  next
    case False
    from stop_children_loop_other_step [OF False, of cs sid sd]
    obtain sd' where "stop_children_loop (c # cs) sid sd = stop_children_loop cs sid sd'" ..
    then show ?thesis using False by (simp only: Cons.IH) simp
  qed
qed

lemma stop_children_loop_last_id:
  "fst (stop_children_loop (children e) [] []) = last_id e"
  by (simp add: stop_children_loop_fst last_id_def id_children_def)

lemma stops_loop_keys:
  "fst ` set (stops_loop es stops) =
     fst ` set stops \<union> {last_id e | e. e \<in> set es \<and> is_stop_elem e \<and> last_id e \<noteq> []}"
proof (induction es arbitrary: stops)
  case Nil
  show ?case by simp
next
  case (Cons e es)
  obtain sid sd where r: "stop_children_loop (children e) [] [] = (sid, sd)"
    by (cases "stop_children_loop (children e) [] []")
  then have sid: "sid = last_id e"
    using stop_children_loop_last_id [of e] by simp
  show ?case
    using r sid
    by (auto simp: Cons.IH Let_def is_stop_elem_def dom_update)
qed

text \<open>
  Claim C7, as amended. The identifier of a stop is the text of its last child named
  \<open>StopPointRef\<close> or \<open>AtcoCode\<close>, empty or not (and empty without such a child); the
  index holds exactly the non-empty identifiers so obtained from the stop elements of
  the document, and never the empty key.
\<close>

theorem stop_id_last_wins:
  "fst (stop_children_loop (children e) [] []) = last_id e \<and>
   fst ` set (xml_extract_stops d) =
     {last_id s | s. s \<in> set (iter d) \<and> is_stop_elem s \<and> last_id s \<noteq> []} \<and>
   [] \<notin> fst ` set (xml_extract_stops d)"
  by (auto simp: stop_children_loop_last_id xml_extract_stops_def stops_loop_keys)

lemma get_text_S1: "get_text (Element t a (Some ''S1'') cs) = ''S1''"
  by (simp add: get_text_def py_strip_def is_space_def)

lemma get_text_A2: "get_text (Element t a (Some ''A2'') cs) = ''A2''"
  by (simp add: get_text_def py_strip_def is_space_def)

lemma two_id_stop_ids:
  "id_children two_id_stop =
     [Element ''StopPointRef'' [] (Some ''S1'') [], Element ''AtcoCode'' [] (Some ''A2'') []]"
  by (simp add: id_children_def is_id_child_def two_id_stop_def local_name_def)

lemma two_id_stop_index:
  "xml_extract_stops two_id_stop = [(''A2'', [(''stop_id'', ''A2'')])]"
  by (simp add: xml_extract_stops_def two_id_stop_def local_name_def get_text_def py_strip_def
      is_space_def Let_def)

text \<open>
  The claim as stated lets the first non-empty value win. On \<open>two_id_stop\<close> that would
  be \<open>S1\<close>; the code indexes the stop under \<open>A2\<close> and has no entry for \<open>S1\<close>.
\<close>

theorem stop_id_first_wins_counterexample:
  "spec_first_nonempty_id two_id_stop = ''S1'' \<and>
   fst (stop_children_loop (children two_id_stop) [] []) = ''A2'' \<and>
   map_of (xml_extract_stops two_id_stop) ''S1'' = None \<and>
   map_of (xml_extract_stops two_id_stop) ''A2'' = Some [(''stop_id'', ''A2'')]"
proof -
  have a: "spec_first_nonempty_id two_id_stop = ''S1''"
    by (simp add: spec_first_nonempty_id_def two_id_stop_ids get_text_S1 get_text_A2)
  have b: "last_id two_id_stop = ''A2''"
    by (simp add: last_id_def two_id_stop_ids get_text_A2)
  show ?thesis using a b by (simp add: stop_children_loop_last_id two_id_stop_index)
qed

theorem stop_id_last_wins_witness:
  "fst ` set (xml_extract_stops two_id_stop) =
     {last_id s | s. s \<in> set (iter two_id_stop) \<and> is_stop_elem s \<and> last_id s \<noteq> []} \<and>
   fst ` set (xml_extract_stops two_id_stop) = {''A2''}"
  using stop_id_last_wins [of two_id_stop two_id_stop]
  by (simp add: two_id_stop_index)

section \<open>Service record\<close>

lemma strip_plain [simp]:
  "py_strip ''SC1'' = ''SC1''" "py_strip ''SC2'' = ''SC2''" "py_strip ''L1'' = ''L1''"
  "py_strip ''L2'' = ''L2''" "py_strip ''O1'' = ''O1''" "py_strip ''O2'' = ''O2''"
  "py_strip ''S1'' = ''S1''"
  by (simp_all add: py_strip_def is_space_def)

lemma two_service_xml_services:
  "xml_extract_services two_service_doc =
     [(''service_code'', ''SC2''), (''line_name'', ''L2''), (''service_origin'', ''O1'')]"
  by (simp add: xml_extract_services_def two_service_doc_def local_name_def get_text_def Let_def)

lemma two_service_xml_operators: "xml_extract_operators two_service_doc = []"
  by (simp add: xml_extract_operators_def two_service_doc_def local_name_def Let_def)

lemma two_service_xml_stops: "xml_extract_stops two_service_doc = []"
  by (simp add: xml_extract_stops_def two_service_doc_def local_name_def Let_def)

lemma two_service_xml_sections:
  "extract_route_sections two_service_doc [] ''f.xml'' =
     Inr [[(''source_file'', PStr ''f.xml''), (''section_id'', PStr []),
           (''timing_link_id'', PStr []), (''from_stop_id'', PStr ''S1'')]]"
  by (simp add: extract_route_sections_def two_service_doc_def local_name_def Let_def
      link_record_def extract_stop_point_def get_text_def attr_get_def dict_get_def
      keep_record_def rec_get_def)

lemma two_service_xml_records:
  "all_records (snd (process_file xml_init (''f.xml'', Inr two_service_doc))) =
     [enrich (xml_extract_services two_service_doc) []
        [(''source_file'', PStr ''f.xml''), (''section_id'', PStr []),
         (''timing_link_id'', PStr []), (''from_stop_id'', PStr ''S1'')]]"
  by (simp add: process_file_def Let_def split_beta two_service_xml_operators
      two_service_xml_stops two_service_xml_sections enrich_loop_fst enrich_loop_all_records
      count_fields_all_records
      xml_init_def)

lemma two_service_bus_state:
  "service_info (snd (process_single_file bus_init (''f.xml'', Inr two_service_doc))) =
     [(''service_code'', ''SC1''), (''line_name'', ''L1''), (''origin'', ''O1''),
      (''destination'', []), (''outbound_desc'', []), (''inbound_desc'', []),
      (''start_date'', []), (''end_date'', []), (''public_use'', [])]"
  by (simp add: process_single_file_def find_namespace_def re_match_namespace_def Let_def
      split_beta bus_extract_stops_def bus_extract_operators_def bus_extract_services_def
      get_tag_def bus_init_def two_service_doc_def descendants_def safe_get_text_def
      find_elem_def)

lemma two_service_bus_namespace:
  "namespace (snd (process_single_file bus_init (''f.xml'', Inr two_service_doc))) = None"
  by (simp add: process_single_file_namespace re_match_namespace_def two_service_doc_def
      bus_init_def)

lemma link_segment_service_fields:
  "rec_get (link_segment st f sid link) ''line_name'' = PStr (dict_get (service_info st) ''line_name'' []) \<and>
   rec_get (link_segment st f sid link) ''service_code'' = PStr (dict_get (service_info st) ''service_code'' []) \<and>
   rec_get (link_segment st f sid link) ''service_origin'' = PStr (dict_get (service_info st) ''origin'' []) \<and>
   rec_get (link_segment st f sid link) ''service_destination'' = PStr (dict_get (service_info st) ''destination'' [])"
  by (simp add: link_segment_def Let_def rec_get_def dict_get_def)

lemma two_service_bus_links:
  "namespace st = None \<Longrightarrow>
   length (extract_timing_links st two_service_doc f) = 1"
  by (simp add: extract_timing_links_char get_tag_def two_service_doc_def descendants_def)

text \<open>
  Claim C6, which \<open>XMLExtractor\<close> does not meet. On \<open>two_service_doc\<close> the one record it
  emits carries the line name and the service code of the second service together with
  the origin of the first: \<open>extract_services\<close> overwrites \<open>line_name\<close> and \<open>service_code\<close>
  at every \<open>LineName\<close> and \<open>ServiceCode\<close> element of the tree and guards only the origin
  and the destination. \<open>BusDataExtractor\<close>, whose loop over the services ends in \<open>break\<close>,
  stamps the segment of the same document with the first service throughout.
\<close>

theorem service_fields_two_services:
  "map (\<lambda>r. (rec_get r ''line_name'', rec_get r ''service_code'', rec_get r ''service_origin''))
       (all_records (snd (process_file xml_init (''f.xml'', Inr two_service_doc))))
     = [(PStr ''L2'', PStr ''SC2'', PStr ''O1'')] \<and>
   map (\<lambda>r. (rec_get r ''line_name'', rec_get r ''service_code'', rec_get r ''service_origin''))
       (data (fst (process_single_file bus_init (''f.xml'', Inr two_service_doc))))
     = [(PStr ''L1'', PStr ''SC1'', PStr ''O1'')]"
proof -
  let ?st = "snd (process_single_file bus_init (''f.xml'', Inr two_service_doc))"
  have x: "map (\<lambda>r. (rec_get r ''line_name'', rec_get r ''service_code'', rec_get r ''service_origin''))
       (all_records (snd (process_file xml_init (''f.xml'', Inr two_service_doc))))
     = [(PStr ''L2'', PStr ''SC2'', PStr ''O1'')]"
    by (simp add: two_service_xml_records two_service_xml_services enrich_def rec_get_def
        dict_get_def)
  obtain seg where seg: "extract_timing_links ?st two_service_doc ''f.xml'' = [seg]"
    using two_service_bus_links [OF two_service_bus_namespace, of "''f.xml''"]
    by (cases "extract_timing_links ?st two_service_doc ''f.xml''") auto
  then have "seg \<in> set (extract_timing_links ?st two_service_doc ''f.xml'')" by simp
  then obtain sid link where "seg = link_segment ?st ''f.xml'' sid link"
    by (auto simp: extract_timing_links_char)
  then have "rec_get seg ''line_name'' = PStr ''L1'' \<and> rec_get seg ''service_code'' = PStr ''SC1''
      \<and> rec_get seg ''service_origin'' = PStr ''O1''"
    by (simp add: link_segment_service_fields two_service_bus_state dict_get_def)
  then show ?thesis
    using x seg by (simp add: process_single_file_data)
qed

section \<open>Timing links kept and dropped\<close>
























end
